theory Spec2Isabelle
  imports Main "HOL-Library.Word" "HOL-Library.AList"
begin

unbundle bit_operations_syntax

section \<open>The attribute struct and its derived forms\<close>

text \<open>
  The attribute file declares \<^verbatim>\<open>type Attribute struct\<close> with exported fields and hands
  attributes around as \<^verbatim>\<open>*Attribute\<close>. \<^verbatim>\<open>ToSingleValued\<close> and \<^verbatim>\<open>ToOptional\<close> either
  return the receiver pointer itself or the address of a new struct whose slice and
  pointer fields are copied as they are. To tell "the same instance" from "an equal
  copy", and a shared backing array from a cloned one, pointers and slices are modelled
  as such: a pointer is an address or nil, a slice is Go's three-word header, and the
  heap holds the allocated objects. Allocation appends to the heap, so the address of a
  new object is the old length.
\<close>

type_synonym ref = "nat option"

datatype slice = Slice (slice_data: ref) (slice_len: nat) (slice_cap: nat)

record Attribute =
  Name :: string
  Description :: string
  Type :: string
  SubAttributes :: slice
  CanonicalValues :: slice
  MultiValued :: bool
  Required :: bool
  CaseExact :: bool
  Mutability :: string
  Returned :: string
  Uniqueness :: string
  ReferenceTypes :: slice
  Metadata :: ref

text \<open>
  The heap: attribute structs, the backing arrays of \<^verbatim>\<open>[]*Attribute\<close> and \<^verbatim>\<open>[]string\<close>
  slices, and the \<^verbatim>\<open>Metadata\<close> objects. The declaration of \<^verbatim>\<open>Metadata\<close> is not part of
  the attribute file, so its objects have an arbitrary type \<open>'m\<close>.
\<close>

record 'm heap =
  attributes :: "Attribute list"
  attribute_arrays :: "ref list list"
  string_arrays :: "string list list"
  metadata :: "'m list"

definition ToSingleValued :: "'m heap \<Rightarrow> ref \<Rightarrow> 'm heap \<times> ref" where
  "ToSingleValued h attr =
     (case attr of
        None \<Rightarrow> (h, None)
      | Some a \<Rightarrow>
          if \<not> MultiValued (attributes h ! a) then (h, attr)
          else
            (h\<lparr>attributes := attributes h @
               [\<lparr>Name = Name (attributes h ! a),
                 Description = Description (attributes h ! a),
                 Type = Type (attributes h ! a),
                 SubAttributes = SubAttributes (attributes h ! a),
                 CanonicalValues = CanonicalValues (attributes h ! a),
                 MultiValued = False,
                 Required = Required (attributes h ! a),
                 CaseExact = CaseExact (attributes h ! a),
                 Mutability = Mutability (attributes h ! a),
                 Returned = Returned (attributes h ! a),
                 Uniqueness = Uniqueness (attributes h ! a),
                 ReferenceTypes = ReferenceTypes (attributes h ! a),
                 Metadata = Metadata (attributes h ! a)\<rparr>]\<rparr>,
             Some (length (attributes h))))"

definition ToOptional :: "'m heap \<Rightarrow> ref \<Rightarrow> 'm heap \<times> ref" where
  "ToOptional h attr =
     (case attr of
        None \<Rightarrow> (h, None)
      | Some a \<Rightarrow>
          if \<not> Required (attributes h ! a) then (h, attr)
          else
            (h\<lparr>attributes := attributes h @
               [\<lparr>Name = Name (attributes h ! a),
                 Description = Description (attributes h ! a),
                 Type = Type (attributes h ! a),
                 SubAttributes = SubAttributes (attributes h ! a),
                 CanonicalValues = CanonicalValues (attributes h ! a),
                 MultiValued = MultiValued (attributes h ! a),
                 Required = False,
                 CaseExact = CaseExact (attributes h ! a),
                 Mutability = Mutability (attributes h ! a),
                 Returned = Returned (attributes h ! a),
                 Uniqueness = Uniqueness (attributes h ! a),
                 ReferenceTypes = ReferenceTypes (attributes h ! a),
                 Metadata = Metadata (attributes h ! a)\<rparr>]\<rparr>,
             Some (length (attributes h))))"

text \<open>
  A non-nil Go pointer always refers to an allocated object; \<open>valid_ref\<close> says so of an
  address in this heap.
\<close>

definition valid_ref :: "'m heap \<Rightarrow> nat \<Rightarrow> bool" where
  "valid_ref h a = (a < length (attributes h))"

section \<open>The complex property\<close>

subsection \<open>Values, errors and outcomes\<close>

text \<open>
  Go's \<^verbatim>\<open>interface{}\<close> argument of \<^verbatim>\<open>Add\<close> and \<^verbatim>\<open>Replace\<close>: nil, the dynamic types a JSON
  decoder produces, and \<open>VOther\<close> for a value of any other dynamic type, which carries
  the name \<^verbatim>\<open>%T\<close> prints for it. A \<^verbatim>\<open>map[string]interface{}\<close> is a list of its entries:
  its keys are distinct, and the order of the list is the order in which \<^verbatim>\<open>range\<close> happens
  to visit the entries, which Go leaves unspecified. A statement about every list is a
  statement about every iteration order.
\<close>

datatype gvalue =
    VNil
  | VBool bool
  | VInt int
  | VFloat64 "64 word"
  | VString string
  | VSlice "gvalue list"
  | VMap "(string \<times> gvalue) list"
  | VOther string

text \<open>The type name \<^verbatim>\<open>%T\<close> prints.\<close>

fun typeName :: "gvalue \<Rightarrow> string" where
  "typeName VNil = ''<nil>''"
| "typeName (VBool b) = ''bool''"
| "typeName (VInt i) = ''int''"
| "typeName (VFloat64 f) = ''float64''"
| "typeName (VString s) = ''string''"
| "typeName (VSlice xs) = ''[]interface {}''"
| "typeName (VMap m) = ''map[string]interface {}''"
| "typeName (VOther t) = t"

text \<open>
  Modelled from the spec: the \<^verbatim>\<open>errors\<close> package is not among the source files. Section 7
  of the specification names the two kinds used here; each carries its formatted message.
\<close>

datatype error = InvalidValue string | Internal string

text \<open>
  A method call either returns (a result and the receiver's state after the call) or
  panics (the panic value, and the state the receiver was in when it panicked, which is
  what the caller sees after a \<^verbatim>\<open>recover\<close>).
\<close>

datatype ('r, 's) outcome = Return 'r 's | Panic string 's

subsection \<open>The attribute as complex.go reads it\<close>

text \<open>
  Modelled from the spec: complex.go reads its \<^verbatim>\<open>*core.Attribute\<close> only through accessor
  methods (\<^verbatim>\<open>Name()\<close>, \<^verbatim>\<open>Path()\<close>, \<^verbatim>\<open>Type()\<close>, \<^verbatim>\<open>MultiValued()\<close>, \<^verbatim>\<open>SingleValued()\<close>,
  \<^verbatim>\<open>IsIdentity()\<close>, \<^verbatim>\<open>HasIdentitySubAttributes()\<close>, \<^verbatim>\<open>CountSubAttributes()\<close>,
  \<^verbatim>\<open>ForEachSubAttribute()\<close>, \<^verbatim>\<open>Equals()\<close>), none of which is among the source files (a Go type
  cannot have a field and a method of one name, so this is not the struct above either).
  Following section 3 of the specification an attribute is an immutable tree with a name,
  a schema path, a type, a multiplicity, an identity flag and its ordered sub-attributes;
  \<^verbatim>\<open>HasIdentitySubAttributes\<close> is "any sub-attribute is flagged identity" (section 4.3,
  step 1). \<^verbatim>\<open>Equals\<close>, of which the specification only says "schema-equal", is a parameter
  of \<open>Matches\<close>.
\<close>

datatype attr_type =
    TypeString | TypeInteger | TypeDecimal | TypeBoolean | TypeDateTime
  | TypeReference | TypeBinary | TypeComplex | TypeOther

datatype attribute = MkAttribute
  (Attribute_Name: string)
  (Attribute_Path: string)
  (Attribute_Type: attr_type)
  (Attribute_MultiValued: bool)
  (Attribute_IsIdentity: bool)
  (Attribute_SubAttributes: "attribute list")

definition Attribute_SingleValued :: "attribute \<Rightarrow> bool" where
  "Attribute_SingleValued a = (\<not> Attribute_MultiValued a)"

definition Attribute_CountSubAttributes :: "attribute \<Rightarrow> nat" where
  "Attribute_CountSubAttributes a = length (Attribute_SubAttributes a)"

definition Attribute_HasIdentitySubAttributes :: "attribute \<Rightarrow> bool" where
  "Attribute_HasIdentitySubAttributes a = list_ex Attribute_IsIdentity (Attribute_SubAttributes a)"

subsection \<open>The property interface\<close>

text \<open>
  The children of a complex property are \<^verbatim>\<open>core.Property\<close> values: leaf properties,
  multi-valued properties and nested complex properties. Only complex.go is among the
  source files, and it uses its children through the interface alone, so a child is a
  state of an arbitrary type \<open>'c\<close> and the interface is the table of the methods
  complex.go calls. \<^verbatim>\<open>Hash\<close>, \<^verbatim>\<open>Add\<close> and \<^verbatim>\<open>Delete\<close> may change the child and may panic;
  \<^verbatim>\<open>Attribute\<close>, \<^verbatim>\<open>Raw\<close> and \<^verbatim>\<open>IsUnassigned\<close> are taken to be reads that return.
  \<open>Container_CountChildren\<close> is \<open>None\<close> for a property that is not a \<^verbatim>\<open>core.Container\<close>,
  where the type assertion \<^verbatim>\<open>another.(core.Container)\<close> panics.
\<close>

record 'c Property =
  Property_Attribute :: "'c \<Rightarrow> attribute"
  Property_Raw :: "'c \<Rightarrow> gvalue"
  Property_IsUnassigned :: "'c \<Rightarrow> bool"
  Property_Hash :: "'c \<Rightarrow> (64 word, 'c) outcome"
  Property_Add :: "'c \<Rightarrow> gvalue \<Rightarrow> (error option, 'c) outcome"
  Property_Delete :: "'c \<Rightarrow> (error option, 'c) outcome"
  Container_CountChildren :: "'c \<Rightarrow> nat option"

subsection \<open>The standard library: FNV-1a, little-endian bytes\<close>

text \<open>
  \<^verbatim>\<open>hash/fnv\<close>: \<^verbatim>\<open>New64a\<close> starts from the 64-bit offset basis, \<^verbatim>\<open>Write\<close> folds each byte in
  by xor and then multiplication by the 64-bit prime (wrapping), and returns a nil error;
  \<^verbatim>\<open>Sum64\<close> reads the state. \<^verbatim>\<open>binary.LittleEndian.PutUint64\<close> fills 8 bytes, least
  significant first. \<^verbatim>\<open>[]byte(s)\<close> is the string's bytes.
\<close>

definition offset64 :: "64 word" where
  "offset64 = 14695981039346656037"

definition prime64 :: "64 word" where
  "prime64 = 1099511628211"

definition New64a :: "64 word" where
  "New64a = offset64"

definition Write :: "64 word \<Rightarrow> 8 word list \<Rightarrow> 64 word \<times> error option" where
  "Write h data = (foldl (\<lambda>s c. (s XOR ucast c) * prime64) h data, None)"

definition Sum64 :: "64 word \<Rightarrow> 64 word" where
  "Sum64 h = h"

definition PutUint64 :: "64 word \<Rightarrow> 8 word list" where
  "PutUint64 v =
     [ucast v, ucast (drop_bit 8 v), ucast (drop_bit 16 v), ucast (drop_bit 24 v),
      ucast (drop_bit 32 v), ucast (drop_bit 40 v), ucast (drop_bit 48 v), ucast (drop_bit 56 v)]"

definition bytes :: "string \<Rightarrow> 8 word list" where
  "bytes s = map of_char s"

subsection \<open>complexProperty\<close>

datatype 'c complexProperty = complexProperty
  (attr: attribute)
  (subProps: "'c list")
  (nameIndex: "string \<Rightarrow> nat option")
  (hash: "64 word")

text \<open>Assignment to one field of the struct.\<close>

definition set_subProps :: "'c complexProperty \<Rightarrow> 'c list \<Rightarrow> 'c complexProperty" where
  "set_subProps p props = complexProperty (attr p) props (nameIndex p) (hash p)"

definition set_hash :: "'c complexProperty \<Rightarrow> 64 word \<Rightarrow> 'c complexProperty" where
  "set_hash p v = complexProperty (attr p) (subProps p) (nameIndex p) v"

definition CountChildren :: "'c complexProperty \<Rightarrow> nat" where
  "CountChildren p = length (subProps p)"

text \<open>
  \<^verbatim>\<open>ForEachChild\<close>: the callback is a closure; \<open>'s\<close> is the state of the variables it
  captures. It may change the child it is given, return an error, which stops the
  iteration, or panic.
\<close>

fun forEachFrom ::
  "(nat \<Rightarrow> 'c \<Rightarrow> 's \<Rightarrow> (error option, 'c \<times> 's) outcome) \<Rightarrow> nat \<Rightarrow> 'c list \<Rightarrow> 's
     \<Rightarrow> (error option, 'c list \<times> 's) outcome" where
  "forEachFrom callback i [] s = Return None ([], s)"
| "forEachFrom callback i (prop # rest) s =
     (case callback i prop s of
        Panic m (prop', s') \<Rightarrow> Panic m (prop' # rest, s')
      | Return (Some err) (prop', s') \<Rightarrow> Return (Some err) (prop' # rest, s')
      | Return None (prop', s') \<Rightarrow>
          (case forEachFrom callback (Suc i) rest s' of
             Panic m (rest', s'') \<Rightarrow> Panic m (prop' # rest', s'')
           | Return r (rest', s'') \<Rightarrow> Return r (prop' # rest', s'')))"

definition ForEachChild ::
  "(nat \<Rightarrow> 'c \<Rightarrow> 's \<Rightarrow> (error option, 'c \<times> 's) outcome) \<Rightarrow> 'c complexProperty \<Rightarrow> 's
     \<Rightarrow> (error option, 'c complexProperty \<times> 's) outcome" where
  "ForEachChild callback p s =
     (case forEachFrom callback 0 (subProps p) s of
        Panic m (props, s') \<Rightarrow> Panic m (set_subProps p props, s')
      | Return r (props, s') \<Rightarrow> Return r (set_subProps p props, s'))"

text \<open>\<^verbatim>\<open>Raw\<close>: the callback stores each child's raw value under the child's attribute name.\<close>

definition rawChild ::
  "'c Property \<Rightarrow> nat \<Rightarrow> 'c \<Rightarrow> (string \<times> gvalue) list
     \<Rightarrow> (error option, 'c \<times> (string \<times> gvalue) list) outcome" where
  "rawChild P i child values =
     Return None
       (child, AList.update (Attribute_Name (Property_Attribute P child)) (Property_Raw P child) values)"

definition Raw :: "'c Property \<Rightarrow> 'c complexProperty \<Rightarrow> gvalue" where
  "Raw P p =
     (case ForEachChild (rawChild P) p [] of
        Return r (p', values) \<Rightarrow> VMap values
      | Panic m (p', values) \<Rightarrow> VMap values)"

definition IsUnassigned :: "'c Property \<Rightarrow> 'c complexProperty \<Rightarrow> bool" where
  "IsUnassigned P p = list_all (Property_IsUnassigned P) (subProps p)"

text \<open>\<^verbatim>\<open>computeHash\<close>: the callback captures the hasher \<^verbatim>\<open>h\<close> and \<^verbatim>\<open>hasIdentity\<close>.\<close>

definition hashChild ::
  "'c Property \<Rightarrow> bool \<Rightarrow> nat \<Rightarrow> 'c \<Rightarrow> 64 word \<Rightarrow> (error option, 'c \<times> 64 word) outcome" where
  "hashChild P hasIdentity i child h =
     (if hasIdentity \<and> \<not> Attribute_IsIdentity (Property_Attribute P child)
      then Return None (child, h)
      else
        (case Write h (bytes (Attribute_Name (Property_Attribute P child))) of
           (h1, Some err) \<Rightarrow> Return (Some err) (child, h1)
         | (h1, None) \<Rightarrow>
             if \<not> Property_IsUnassigned P child then
               (case Property_Hash P child of
                  Panic m child' \<Rightarrow> Panic m (child', h1)
                | Return v child' \<Rightarrow>
                    (case Write h1 (PutUint64 v) of
                       (h2, Some err) \<Rightarrow> Return (Some err) (child', h2)
                     | (h2, None) \<Rightarrow> Return None (child', h2)))
             else Return None (child, h1)))"

definition computeHash :: "'c Property \<Rightarrow> 'c complexProperty \<Rightarrow> (unit, 'c complexProperty) outcome" where
  "computeHash P p =
     (case ForEachChild (hashChild P (Attribute_HasIdentitySubAttributes (attr p))) p New64a of
        Panic m (p', h) \<Rightarrow> Panic m p'
      | Return (Some err) (p', h) \<Rightarrow> Panic ''error computing hash'' p'
      | Return None (p', h) \<Rightarrow>
          Return () (set_hash p' (Sum64 h)))"

definition Hash :: "'c Property \<Rightarrow> 'c complexProperty \<Rightarrow> (64 word, 'c complexProperty) outcome" where
  "Hash P p =
     (if hash p = 0 then
        (case computeHash P p of
           Panic m p' \<Rightarrow> Panic m p'
         | Return u p' \<Rightarrow> Return (hash p') p')
      else Return (hash p) p)"

definition Matches ::
  "(attribute \<Rightarrow> attribute \<Rightarrow> bool) \<Rightarrow> 'c Property \<Rightarrow> 'd Property \<Rightarrow> 'c complexProperty \<Rightarrow> 'd
     \<Rightarrow> (bool, 'c complexProperty \<times> 'd) outcome" where
  "Matches Equals P A p another =
     (if \<not> Equals (attr p) (Property_Attribute A another) then Return False (p, another)
      else
        (case Container_CountChildren A another of
           None \<Rightarrow> Panic ''interface conversion: core.Property is not core.Container'' (p, another)
         | Some n \<Rightarrow>
             if CountChildren p \<noteq> n then Return False (p, another)
             else
               (case Hash P p of
                  Panic m p' \<Rightarrow> Panic m (p', another)
                | Return h1 p' \<Rightarrow>
                    (case Property_Hash A another of
                       Panic m another' \<Rightarrow> Panic m (p', another')
                     | Return h2 another' \<Rightarrow> Return (h1 = h2) (p', another')))))"

definition errIncompatibleValue :: "'c complexProperty \<Rightarrow> gvalue \<Rightarrow> error" where
  "errIncompatibleValue p v =
     InvalidValue (''value of type '' @ typeName v @ '' is incompatible with attribute ''
       @ [CHR 0x27] @ Attribute_Path (attr p) @ [CHR 0x27])"

definition errIncompatibleOp :: "'c complexProperty \<Rightarrow> error" where
  "errIncompatibleOp p = Internal ''incompatible operation''"

definition EqualsTo :: "'c complexProperty \<Rightarrow> gvalue \<Rightarrow> bool \<times> error option" where
  "EqualsTo p v = (False, Some (errIncompatibleOp p))"

definition StartsWith :: "'c complexProperty \<Rightarrow> string \<Rightarrow> bool \<times> error option" where
  "StartsWith p v = (False, Some (errIncompatibleOp p))"

definition EndsWith :: "'c complexProperty \<Rightarrow> string \<Rightarrow> bool \<times> error option" where
  "EndsWith p v = (False, Some (errIncompatibleOp p))"

definition Contains :: "'c complexProperty \<Rightarrow> string \<Rightarrow> bool \<times> error option" where
  "Contains p v = (False, Some (errIncompatibleOp p))"

definition GreaterThan :: "'c complexProperty \<Rightarrow> gvalue \<Rightarrow> bool \<times> error option" where
  "GreaterThan p v = (False, Some (errIncompatibleOp p))"

definition LessThan :: "'c complexProperty \<Rightarrow> gvalue \<Rightarrow> bool \<times> error option" where
  "LessThan p v = (False, Some (errIncompatibleOp p))"

text \<open>
  \<^verbatim>\<open>Add\<close>: the loop over the entries of the map. \<^verbatim>\<open>strings.ToLower\<close> is a parameter, so
  nothing depends on how it folds characters outside ASCII. Indexing \<^verbatim>\<open>p.subProps[i]\<close>
  panics when \<open>i\<close> is out of range.
\<close>

fun addEach ::
  "(string \<Rightarrow> string) \<Rightarrow> 'c Property \<Rightarrow> (string \<Rightarrow> nat option) \<Rightarrow> (string \<times> gvalue) list
     \<Rightarrow> 'c list \<Rightarrow> (error option, 'c list) outcome" where
  "addEach ToLower P idx [] props = Return None props"
| "addEach ToLower P idx ((k, v) # m) props =
     (case idx (ToLower k) of
        None \<Rightarrow> addEach ToLower P idx m props
      | Some i \<Rightarrow>
          if i < length props then
            (case Property_Add P (props ! i) v of
               Panic r c \<Rightarrow> Panic r (props[i := c])
             | Return (Some err) c \<Rightarrow> Return (Some err) (props[i := c])
             | Return None c \<Rightarrow> addEach ToLower P idx m (props[i := c]))
          else Panic ''runtime error: index out of range'' props)"

definition Add ::
  "(string \<Rightarrow> string) \<Rightarrow> 'c Property \<Rightarrow> 'c complexProperty \<Rightarrow> gvalue
     \<Rightarrow> (error option, 'c complexProperty) outcome" where
  "Add ToLower P p v =
     (case v of
        VNil \<Rightarrow> Return None p
      | VMap m \<Rightarrow>
          (case addEach ToLower P (nameIndex p) m (subProps p) of
             Panic r props \<Rightarrow> Panic r (set_subProps p props)
           | Return (Some err) props \<Rightarrow> Return (Some err) (set_subProps p props)
           | Return None props \<Rightarrow>
               (case computeHash P (set_subProps p props) of
                  Panic r p' \<Rightarrow> Panic r p'
                | Return u p' \<Rightarrow> Return None p'))
      | _ \<Rightarrow> Return (Some (errIncompatibleValue p v)) p)"

fun deleteEach :: "'c Property \<Rightarrow> 'c list \<Rightarrow> (error option, 'c list) outcome" where
  "deleteEach P [] = Return None []"
| "deleteEach P (subProp # rest) =
     (case Property_Delete P subProp of
        Panic r c \<Rightarrow> Panic r (c # rest)
      | Return (Some err) c \<Rightarrow> Return (Some err) (c # rest)
      | Return None c \<Rightarrow>
          (case deleteEach P rest of
             Panic r rest' \<Rightarrow> Panic r (c # rest')
           | Return e rest' \<Rightarrow> Return e (c # rest')))"

definition Delete :: "'c Property \<Rightarrow> 'c complexProperty \<Rightarrow> (error option, 'c complexProperty) outcome" where
  "Delete P p =
     (case deleteEach P (subProps p) of
        Panic r props \<Rightarrow> Panic r (set_subProps p props)
      | Return (Some err) props \<Rightarrow> Return (Some err) (set_subProps p props)
      | Return None props \<Rightarrow>
          (case computeHash P (set_subProps p props) of
             Panic r p' \<Rightarrow> Panic r p'
           | Return u p' \<Rightarrow> Return None p'))"

text \<open>
  \<^verbatim>\<open>Replace\<close>: the inner case is the body (\<^verbatim>\<open>Delete\<close>, then \<^verbatim>\<open>Add\<close>, each error returned
  through the named result); the outer case is the deferred function, which turns a
  panic of the body into the returned error. Panic values are taken to be non-nil.
\<close>

definition Replace ::
  "(string \<Rightarrow> string) \<Rightarrow> 'c Property \<Rightarrow> 'c complexProperty \<Rightarrow> gvalue
     \<Rightarrow> (error option, 'c complexProperty) outcome" where
  "Replace ToLower P p v =
     (if v = VNil then Return None p
      else
        (case (case Delete P p of
                 Panic r p1 \<Rightarrow> Panic r p1
               | Return (Some err) p1 \<Rightarrow> Return (Some err) p1
               | Return None p1 \<Rightarrow> Add ToLower P p1 v) of
           Panic r p' \<Rightarrow> Return (Some (errIncompatibleValue p' v)) p'
         | Return err p' \<Rightarrow> Return err p'))"

text \<open>
  \<^verbatim>\<open>*complexProperty\<close> implements \<^verbatim>\<open>core.Property\<close> and \<^verbatim>\<open>core.Container\<close> (the two blank
  variable declarations of complex.go): its own method table.
\<close>

definition complexProperty_Property ::
  "(string \<Rightarrow> string) \<Rightarrow> 'c Property \<Rightarrow> 'c complexProperty Property" where
  "complexProperty_Property ToLower P =
     \<lparr>Property_Attribute = attr,
      Property_Raw = Raw P,
      Property_IsUnassigned = IsUnassigned P,
      Property_Hash = Hash P,
      Property_Add = Add ToLower P,
      Property_Delete = Delete P,
      Container_CountChildren = (\<lambda>p. Some (CountChildren p))\<rparr>"

subsection \<open>NewComplex\<close>

text \<open>
  The constructors of the other property kinds are not among the source files; they are
  parameters. \<open>asProperty\<close> is the conversion of a \<^verbatim>\<open>*complexProperty\<close> to the interface
  type when a nested complex property is appended to \<^verbatim>\<open>subProps\<close>. A panic is \<open>Inl\<close> of
  its message.
\<close>

record 'c constructors =
  NewMulti :: "attribute \<Rightarrow> 'c"
  NewString :: "attribute \<Rightarrow> 'c"
  NewInteger :: "attribute \<Rightarrow> 'c"
  NewDecimal :: "attribute \<Rightarrow> 'c"
  NewBoolean :: "attribute \<Rightarrow> 'c"
  NewDateTime :: "attribute \<Rightarrow> 'c"
  NewReference :: "attribute \<Rightarrow> 'c"
  NewBinary :: "attribute \<Rightarrow> 'c"
  asProperty :: "'c complexProperty \<Rightarrow> 'c"

function NewComplex ::
  "(string \<Rightarrow> string) \<Rightarrow> 'c constructors \<Rightarrow> attribute \<Rightarrow> string + 'c complexProperty"
and newSubProps ::
  "(string \<Rightarrow> string) \<Rightarrow> 'c constructors \<Rightarrow> attribute list \<Rightarrow> 'c list \<Rightarrow> (string \<Rightarrow> nat option)
     \<Rightarrow> string + ('c list \<times> (string \<Rightarrow> nat option))" where
  "NewComplex ToLower K a =
     (if \<not> Attribute_SingleValued a \<or> Attribute_Type a \<noteq> TypeComplex
      then Inl ''invalid attribute for complex property''
      else
        (case newSubProps ToLower K (Attribute_SubAttributes a) [] Map.empty of
           Inl r \<Rightarrow> Inl r
         | Inr (props, idx) \<Rightarrow> Inr (complexProperty a props idx 0)))"
| "newSubProps ToLower K [] props idx = Inr (props, idx)"
| "newSubProps ToLower K (subAttribute # rest) props idx =
     (case
        (if Attribute_MultiValued subAttribute then Inr (props @ [NewMulti K subAttribute])
         else
           (case Attribute_Type subAttribute of
              TypeString \<Rightarrow> Inr (props @ [NewString K subAttribute])
            | TypeInteger \<Rightarrow> Inr (props @ [NewInteger K subAttribute])
            | TypeDecimal \<Rightarrow> Inr (props @ [NewDecimal K subAttribute])
            | TypeBoolean \<Rightarrow> Inr (props @ [NewBoolean K subAttribute])
            | TypeDateTime \<Rightarrow> Inr (props @ [NewDateTime K subAttribute])
            | TypeReference \<Rightarrow> Inr (props @ [NewReference K subAttribute])
            | TypeBinary \<Rightarrow> Inr (props @ [NewBinary K subAttribute])
            | TypeComplex \<Rightarrow>
                (case NewComplex ToLower K subAttribute of
                   Inl r \<Rightarrow> Inl r
                 | Inr c \<Rightarrow> Inr (props @ [asProperty K c]))
            | TypeOther \<Rightarrow> Inl ''invalid type''))
      of
        Inl r \<Rightarrow> Inl r
      | Inr props' \<Rightarrow>
          newSubProps ToLower K rest props'
            (idx(ToLower (Attribute_Name subAttribute) \<mapsto> length props' - 1)))"
  by pat_completeness auto
termination
proof (relation "measure (case_sum (\<lambda>(T, K, a). size a) (\<lambda>(T, K, subs, props, idx). size_list size subs))")
  fix ToLower :: "string \<Rightarrow> string" and K :: "'c constructors" and a :: attribute
  show "(Inr (ToLower, K, Attribute_SubAttributes a, [], Map.empty), Inl (ToLower, K, a))
      \<in> measure (case_sum (\<lambda>(T, K, a). size a) (\<lambda>(T, K, subs, props, idx). size_list size subs))"
    by (cases a) simp
qed auto

section \<open>The hash algorithm as the specification words it\<close>

text \<open>
  Section 4.3 of the specification, "Hash algorithm": the digest is 64-bit FNV-1a of one
  byte sequence, the concatenation over the children in order, leaving out a child whose
  attribute is not flagged identity when some sub-attribute is, of the child's attribute
  name followed, if the child is not unassigned, by the 8 little-endian bytes of the
  child's \<^verbatim>\<open>Hash()\<close> value.
\<close>

definition spec_fnv1a64 :: "8 word list \<Rightarrow> 64 word" where
  "spec_fnv1a64 data = foldl (\<lambda>s c. (s XOR ucast c) * 1099511628211) 14695981039346656037 data"

definition spec_le64 :: "64 word \<Rightarrow> 8 word list" where
  "spec_le64 v = map (\<lambda>i. ucast (drop_bit (8 * i) v)) [0..<8]"

definition hashValue :: "'c Property \<Rightarrow> 'c \<Rightarrow> 64 word" where
  "hashValue P c = (case Property_Hash P c of Return v c' \<Rightarrow> v | Panic m c' \<Rightarrow> 0)"

definition afterHash :: "'c Property \<Rightarrow> 'c \<Rightarrow> 'c" where
  "afterHash P c = (case Property_Hash P c of Return v c' \<Rightarrow> c' | Panic m c' \<Rightarrow> c')"

definition spec_skipped :: "'c Property \<Rightarrow> 'c complexProperty \<Rightarrow> 'c \<Rightarrow> bool" where
  "spec_skipped P p c =
     (list_ex Attribute_IsIdentity (Attribute_SubAttributes (attr p))
      \<and> \<not> Attribute_IsIdentity (Property_Attribute P c))"

definition spec_hashInput :: "'c Property \<Rightarrow> 'c complexProperty \<Rightarrow> 8 word list" where
  "spec_hashInput P p =
     concat (map (\<lambda>c. bytes (Attribute_Name (Property_Attribute P c))
                      @ (if Property_IsUnassigned P c then [] else spec_le64 (hashValue P c)))
               (filter (\<lambda>c. \<not> spec_skipped P p c) (subProps p)))"

definition spec_complexHash :: "'c Property \<Rightarrow> 'c complexProperty \<Rightarrow> 64 word" where
  "spec_complexHash P p = spec_fnv1a64 (spec_hashInput P p)"

text \<open>What one child contributes to the hashed bytes.\<close>

definition childInput :: "'c Property \<Rightarrow> 'c \<Rightarrow> 8 word list" where
  "childInput P c = bytes (Attribute_Name (Property_Attribute P c))
                      @ (if Property_IsUnassigned P c then [] else spec_le64 (hashValue P c))"

text \<open>The children whose \<^verbatim>\<open>Hash()\<close> the algorithm asks for.\<close>

definition hashed :: "'c Property \<Rightarrow> 'c complexProperty \<Rightarrow> 'c \<Rightarrow> bool" where
  "hashed P p c = (\<not> spec_skipped P p c \<and> \<not> Property_IsUnassigned P c)"

section \<open>Key resolution as the specification words it\<close>

text \<open>
  Section 4.3 of the specification, \<^verbatim>\<open>Add\<close>: "For each key, resolve the matching
  sub-attribute case-insensitively; unknown keys are silently ignored; recognized keys
  delegate to the corresponding child's \<^verbatim>\<open>Add\<close>." \<open>spec_resolve\<close> searches the sub-attributes
  for the one whose name equals the key once both are lower-cased (the last one, should
  a schema declare two); \<open>spec_known\<close> says there is one; \<open>spec_delegate\<close> is the loop
  over the entries with that resolution, which stops at the first failing child as
  section 7 has errors bubble up. \<open>indexed\<close> is the shape \<^verbatim>\<open>NewComplex\<close> gives a property:
  the name index holds, for every lower-cased sub-attribute name, the position of the
  (last) sub-attribute of that name, and there is one child per sub-attribute.
\<close>

fun lastIndex :: "('a \<Rightarrow> bool) \<Rightarrow> 'a list \<Rightarrow> nat option" where
  "lastIndex Q [] = None"
| "lastIndex Q (x # xs) =
     (case lastIndex Q xs of
        Some i \<Rightarrow> Some (Suc i)
      | None \<Rightarrow> if Q x then Some 0 else None)"

definition spec_resolve :: "(string \<Rightarrow> string) \<Rightarrow> attribute list \<Rightarrow> string \<Rightarrow> nat option" where
  "spec_resolve ToLower subs k = lastIndex (\<lambda>s. ToLower (Attribute_Name s) = ToLower k) subs"

definition indexed :: "(string \<Rightarrow> string) \<Rightarrow> 'c complexProperty \<Rightarrow> bool" where
  "indexed ToLower p =
     ((\<forall>key. nameIndex p key =
          lastIndex (\<lambda>s. ToLower (Attribute_Name s) = key) (Attribute_SubAttributes (attr p)))
      \<and> length (subProps p) = length (Attribute_SubAttributes (attr p)))"

fun spec_delegate ::
  "(string \<Rightarrow> string) \<Rightarrow> 'c Property \<Rightarrow> attribute list \<Rightarrow> (string \<times> gvalue) list \<Rightarrow> 'c list
     \<Rightarrow> (error option, 'c list) outcome" where
  "spec_delegate ToLower P subs [] props = Return None props"
| "spec_delegate ToLower P subs ((k, v) # m) props =
     (case spec_resolve ToLower subs k of
        None \<Rightarrow> spec_delegate ToLower P subs m props
      | Some i \<Rightarrow>
          (case Property_Add P (props ! i) v of
             Return None c \<Rightarrow> spec_delegate ToLower P subs m (props[i := c])
           | Return (Some err) c \<Rightarrow> Return (Some err) (props[i := c])
           | Panic r c \<Rightarrow> Panic r (props[i := c])))"

definition spec_known :: "(string \<Rightarrow> string) \<Rightarrow> attribute list \<Rightarrow> string \<Rightarrow> bool" where
  "spec_known ToLower subs k = list_ex (\<lambda>s. ToLower (Attribute_Name s) = ToLower k) subs"

section \<open>The round trip as the specification words it\<close>






section \<open>A leaf to run the container on\<close>

text \<open>
  Modelled from the spec: the leaf properties are not among the source files. This is the
  string leaf of section 4.2, as far as the specification fixes it: \<^verbatim>\<open>Add\<close> of a string
  stores it, marks the leaf touched and recomputes the hash; \<^verbatim>\<open>Add\<close> of anything else fails
  with \<^verbatim>\<open>InvalidValue\<close> carrying the observed type and the leaf's path and changes nothing;
  \<^verbatim>\<open>Delete\<close> clears the value and never fails; \<^verbatim>\<open>Raw\<close> is the stored scalar. The digest is
  some deterministic function of the value (here FNV-1a of its bytes). It serves to
  evaluate the container code on concrete inputs; the general theorems hold for every
  method table.
\<close>

datatype stringLeaf = stringLeaf
  (leaf_attr: attribute)
  (leaf_value: "string option")
  (leaf_touched: bool)
  (leaf_hash: "64 word")

definition leaf_digest :: "string option \<Rightarrow> 64 word" where
  "leaf_digest v = (case v of None \<Rightarrow> 0 | Some s \<Rightarrow> fst (Write New64a (bytes s)))"

definition stringLeaf_Add :: "stringLeaf \<Rightarrow> gvalue \<Rightarrow> (error option, stringLeaf) outcome" where
  "stringLeaf_Add c v =
     (case v of
        VString s \<Rightarrow> Return None (stringLeaf (leaf_attr c) (Some s) True (leaf_digest (Some s)))
      | _ \<Rightarrow>
          Return (Some (InvalidValue (''value of type '' @ typeName v
            @ '' is incompatible with attribute '' @ [CHR 0x27] @ Attribute_Path (leaf_attr c)
            @ [CHR 0x27]))) c)"

definition stringLeaf_Delete :: "stringLeaf \<Rightarrow> (error option, stringLeaf) outcome" where
  "stringLeaf_Delete c =
     Return None
       (stringLeaf (leaf_attr c) None (leaf_touched c \<or> leaf_value c \<noteq> None) (leaf_digest None))"

definition stringLeaf_Property :: "stringLeaf Property" where
  "stringLeaf_Property =
     \<lparr>Property_Attribute = leaf_attr,
      Property_Raw = (\<lambda>c. case leaf_value c of None \<Rightarrow> VNil | Some s \<Rightarrow> VString s),
      Property_IsUnassigned = (\<lambda>c. leaf_value c = None),
      Property_Hash = (\<lambda>c. Return (leaf_hash c) c),
      Property_Add = stringLeaf_Add,
      Property_Delete = stringLeaf_Delete,
      Container_CountChildren = (\<lambda>c. None)\<rparr>"

text \<open>
  A constructor table for attributes whose sub-attributes are all single-valued strings.
  For such an attribute \<^verbatim>\<open>NewComplex\<close> calls \<open>NewString\<close> and nothing else of the table; the
  other entries are there to fill the record and are never applied.
\<close>

definition newStringLeaf :: "attribute \<Rightarrow> stringLeaf" where
  "newStringLeaf a = stringLeaf a None False 0"

definition stringLeaf_constructors :: "stringLeaf constructors" where
  "stringLeaf_constructors =
     \<lparr>NewMulti = newStringLeaf, NewString = newStringLeaf, NewInteger = newStringLeaf,
      NewDecimal = newStringLeaf, NewBoolean = newStringLeaf, NewDateTime = newStringLeaf,
      NewReference = newStringLeaf, NewBinary = newStringLeaf,
      asProperty = (\<lambda>c. newStringLeaf (attr c))\<rparr>"

text \<open>\<^verbatim>\<open>strings.ToLower\<close> on ASCII strings: \<^verbatim>\<open>'A'..'Z'\<close> move by \<^verbatim>\<open>'a' - 'A'\<close>.\<close>

definition asciiToLower :: "string \<Rightarrow> string" where
  "asciiToLower s =
     map (\<lambda>c. if 65 \<le> (of_char c :: nat) \<and> (of_char c :: nat) \<le> 90
              then char_of ((of_char c :: nat) + 32) else c) s"

text \<open>
  The attribute of the specification's scenario: \<^verbatim>\<open>name\<close> with the string sub-attributes
  \<^verbatim>\<open>givenName\<close> and \<^verbatim>\<open>familyName\<close>, no identity flag; and a group member with the identity
  sub-attribute \<^verbatim>\<open>value\<close> and the plain sub-attribute \<^verbatim>\<open>display\<close>.
\<close>

definition givenName_attr :: attribute where
  "givenName_attr = MkAttribute ''givenName'' ''name.givenName'' TypeString False False []"

definition familyName_attr :: attribute where
  "familyName_attr = MkAttribute ''familyName'' ''name.familyName'' TypeString False False []"

definition name_attr :: attribute where
  "name_attr = MkAttribute ''name'' ''name'' TypeComplex False False [givenName_attr, familyName_attr]"

definition value_attr :: attribute where
  "value_attr = MkAttribute ''value'' ''members.value'' TypeString False True []"

definition display_attr :: attribute where
  "display_attr = MkAttribute ''display'' ''members.display'' TypeString False False []"

definition member_attr :: attribute where
  "member_attr = MkAttribute ''members'' ''members'' TypeComplex False False [value_attr, display_attr]"

definition name_fresh :: "stringLeaf complexProperty" where
  "name_fresh =
     complexProperty name_attr [newStringLeaf givenName_attr, newStringLeaf familyName_attr]
       [''givenname'' \<mapsto> 0, ''familyname'' \<mapsto> 1] 0"

definition member_u1 :: "stringLeaf complexProperty" where
  "member_u1 =
     complexProperty member_attr
       [stringLeaf value_attr (Some ''u1'') True (leaf_digest (Some ''u1'')),
        stringLeaf display_attr (Some ''Ada'') True (leaf_digest (Some ''Ada''))]
       [''value'' \<mapsto> 0, ''display'' \<mapsto> 1] 0"

definition member_u1_renamed :: "stringLeaf complexProperty" where
  "member_u1_renamed =
     complexProperty member_attr
       [stringLeaf value_attr (Some ''u1'') True (leaf_digest (Some ''u1'')),
        stringLeaf display_attr (Some ''Countess'') True (leaf_digest (Some ''Countess''))]
       [''value'' \<mapsto> 0, ''display'' \<mapsto> 1] 0"

text \<open>
  A heap for the attribute struct: a required multi-valued \<^verbatim>\<open>emails\<close> attribute whose
  sub-attribute slice points to a backing array and whose metadata pointer is set, and
  its optional single-valued sub-attribute \<^verbatim>\<open>value\<close>.
\<close>

definition emails_struct :: Attribute where
  "emails_struct =
     \<lparr>Name = ''emails'', Description = ''Email addresses'', Type = ''complex'',
      SubAttributes = Slice (Some 0) 2 2, CanonicalValues = Slice None 0 0,
      MultiValued = True, Required = True, CaseExact = False,
      Mutability = ''readWrite'', Returned = ''default'', Uniqueness = ''none'',
      ReferenceTypes = Slice None 0 0, Metadata = Some 0\<rparr>"

definition value_struct :: Attribute where
  "value_struct =
     \<lparr>Name = ''value'', Description = ''The address'', Type = ''string'',
      SubAttributes = Slice None 0 0, CanonicalValues = Slice None 0 0,
      MultiValued = False, Required = False, CaseExact = False,
      Mutability = ''readWrite'', Returned = ''default'', Uniqueness = ''none'',
      ReferenceTypes = Slice None 0 0, Metadata = None\<rparr>"

definition heap0 :: "unit heap" where
  "heap0 = \<lparr>attributes = [emails_struct, value_struct], attribute_arrays = [[Some 1, None]],
            string_arrays = [], metadata = [()]\<rparr>"

text \<open>
  The \<^verbatim>\<open>name\<close> property after \<^verbatim>\<open>Add\<close> of \<^verbatim>\<open>{"givenName": "Ada"}\<close>, and a method table
  whose \<^verbatim>\<open>Add\<close> panics, to exercise the deferred \<^verbatim>\<open>recover\<close> of \<^verbatim>\<open>Replace\<close>.
\<close>

definition name_ada :: "stringLeaf complexProperty" where
  "name_ada =
     complexProperty name_attr
       [stringLeaf givenName_attr (Some ''Ada'') True (leaf_digest (Some ''Ada'')),
        newStringLeaf familyName_attr]
       [''givenname'' \<mapsto> 0, ''familyname'' \<mapsto> 1]
       (spec_fnv1a64 (bytes ''givenName'' @ spec_le64 (leaf_digest (Some ''Ada''))
          @ bytes ''familyName''))"

definition panicking_Add :: "stringLeaf Property" where
  "panicking_Add = stringLeaf_Property\<lparr>Property_Add := (\<lambda>c v. Panic ''add panicked'' c)\<rparr>"

section \<open>The hash of a complex property\<close>

lemma Write_no_error: "snd (Write h d) = None"
  by (simp add: Write_def)

lemma Write_append: "fst (Write h (a @ b)) = fst (Write (fst (Write h a)) b)"
  by (simp add: Write_def)

lemma Write_Nil: "fst (Write h []) = h"
  by (simp add: Write_def)

lemma spec_fnv1a64_Write: "spec_fnv1a64 d = Sum64 (fst (Write New64a d))"
  by (simp add: spec_fnv1a64_def Sum64_def Write_def New64a_def offset64_def prime64_def)

lemma PutUint64_spec: "PutUint64 v = spec_le64 v"
  by (simp add: PutUint64_def spec_le64_def upt_rec)

text \<open>The published FNV-1a test vector for the one-byte input \<^verbatim>\<open>a\<close>.\<close>

lemma fnv1a64_vector: "Sum64 (fst (Write New64a (bytes ''a''))) = 0xaf63dc4c8601ec8c"
  by (simp add: Sum64_def Write_def New64a_def bytes_def offset64_def prime64_def)

lemma hashChild_skipped:
  "hasId \<and> \<not> Attribute_IsIdentity (Property_Attribute P c) \<Longrightarrow>
   hashChild P hasId i c h = Return None (c, h)"
  by (simp add: hashChild_def)

lemma hashChild_unassigned:
  "\<not> (hasId \<and> \<not> Attribute_IsIdentity (Property_Attribute P c)) \<Longrightarrow> Property_IsUnassigned P c \<Longrightarrow>
   hashChild P hasId i c h = Return None (c, fst (Write h (childInput P c)))"
  by (auto simp add: hashChild_def childInput_def Write_def)

lemma hashChild_assigned:
  "\<not> (hasId \<and> \<not> Attribute_IsIdentity (Property_Attribute P c)) \<Longrightarrow> \<not> Property_IsUnassigned P c \<Longrightarrow>
   Property_Hash P c = Return v c' \<Longrightarrow>
   hashChild P hasId i c h = Return None (afterHash P c, fst (Write h (childInput P c)))"
  by (auto simp add: hashChild_def childInput_def Write_def afterHash_def hashValue_def PutUint64_spec)

lemma forEachFrom_hashChild:
  assumes "\<forall>c\<in>set cs. \<not> (hasId \<and> \<not> Attribute_IsIdentity (Property_Attribute P c))
             \<and> \<not> Property_IsUnassigned P c \<longrightarrow> (\<exists>v c'. Property_Hash P c = Return v c')"
  shows "forEachFrom (hashChild P hasId) i cs h =
     Return None
       (map (\<lambda>c. if \<not> (hasId \<and> \<not> Attribute_IsIdentity (Property_Attribute P c))
                     \<and> \<not> Property_IsUnassigned P c
                  then afterHash P c else c) cs,
        fst (Write h (concat (map (childInput P)
          (filter (\<lambda>c. \<not> (hasId \<and> \<not> Attribute_IsIdentity (Property_Attribute P c))) cs)))))"
  using assms
proof (induction cs arbitrary: i h)
  case Nil
  then show ?case by (simp add: Write_Nil)
next
  case (Cons c cs)
  have rest: "\<forall>c\<in>set cs. \<not> (hasId \<and> \<not> Attribute_IsIdentity (Property_Attribute P c))
             \<and> \<not> Property_IsUnassigned P c \<longrightarrow> (\<exists>v c'. Property_Hash P c = Return v c')"
    using Cons.prems by simp
  note IH = Cons.IH [OF rest]
  show ?case
  proof (cases "hasId \<and> \<not> Attribute_IsIdentity (Property_Attribute P c)")
    case True
    then show ?thesis using IH by (simp add: hashChild_skipped)
  next
    case incl: False
    show ?thesis
    proof (cases "Property_IsUnassigned P c")
      case True
      then show ?thesis using incl IH by (simp add: hashChild_unassigned Write_append)
    next
      case False
      then obtain v c' where "Property_Hash P c = Return v c'"
        using Cons.prems incl by auto
      then show ?thesis using incl False IH by (simp add: hashChild_assigned Write_append)
    qed
  qed
qed

lemma computeHash_result:
  assumes "\<forall>c\<in>set (subProps p). hashed P p c \<longrightarrow> (\<exists>v c'. Property_Hash P c = Return v c')"
  shows "computeHash P p =
     Return ()
       (complexProperty (attr p)
          (map (\<lambda>c. if hashed P p c then afterHash P c else c) (subProps p))
          (nameIndex p)
          (spec_complexHash P p))"
proof -
  let ?hasId = "Attribute_HasIdentitySubAttributes (attr p)"
  have skip: "\<And>c. (?hasId \<and> \<not> Attribute_IsIdentity (Property_Attribute P c)) = spec_skipped P p c"
    by (simp add: spec_skipped_def Attribute_HasIdentitySubAttributes_def)
  have "\<forall>c\<in>set (subProps p). \<not> (?hasId \<and> \<not> Attribute_IsIdentity (Property_Attribute P c))
             \<and> \<not> Property_IsUnassigned P c \<longrightarrow> (\<exists>v c'. Property_Hash P c = Return v c')"
    using assms by (simp add: hashed_def skip)
  from forEachFrom_hashChild [OF this, of 0 New64a]
  show ?thesis
    by (simp add: computeHash_def ForEachChild_def skip hashed_def set_subProps_def set_hash_def
        spec_complexHash_def spec_hashInput_def spec_fnv1a64_Write childInput_def [abs_def])
qed

text \<open>
  C1. \<^verbatim>\<open>computeHash\<close> computes the hash the specification describes. Provided the
  \<^verbatim>\<open>Hash()\<close> calls it makes on its children return, \<^verbatim>\<open>computeHash\<close> returns, and the hash it
  stores is the 64-bit FNV-1a digest of the bytes obtained by going through the children
  in their order, skipping every child whose attribute is not flagged identity when some
  sub-attribute is, and taking of each remaining child the exact bytes of its attribute
  name followed, only if the child is not unassigned, by the child's \<^verbatim>\<open>Hash()\<close> value as 8
  little-endian bytes. A skipped or unassigned child is not asked for its hash and stays
  as it is; the attribute and the name index are not changed.
\<close>

theorem computeHash_spec:
  assumes "\<forall>c\<in>set (subProps p). hashed P p c \<longrightarrow> (\<exists>v c'. Property_Hash P c = Return v c')"
  shows "computeHash P p =
     Return ()
       (complexProperty (attr p)
          (map (\<lambda>c. if hashed P p c then afterHash P c else c) (subProps p))
          (nameIndex p)
          (spec_fnv1a64
             (concat (map (\<lambda>c. bytes (Attribute_Name (Property_Attribute P c))
                               @ (if Property_IsUnassigned P c then []
                                  else spec_le64 (hashValue P c)))
                        (filter (\<lambda>c. \<not> spec_skipped P p c) (subProps p))))))"
  using computeHash_result [OF assms] by (simp add: spec_complexHash_def spec_hashInput_def)

theorem computeHash_spec_witness:
  "computeHash stringLeaf_Property member_u1 =
     Return () (set_hash member_u1
       (spec_fnv1a64 (bytes ''value'' @ spec_le64 (leaf_digest (Some ''u1'')))))"
  using computeHash_spec [of member_u1 stringLeaf_Property]
  by (simp add: member_u1_def member_attr_def value_attr_def display_attr_def hashed_def
      spec_skipped_def stringLeaf_Property_def set_hash_def afterHash_def hashValue_def)

section \<open>Matching\<close>

text \<open>
  C2. For two complex properties \<open>p\<close> and \<open>q\<close> whose \<^verbatim>\<open>Hash()\<close> calls return \<open>h1\<close> and \<open>h2\<close>,
  \<^verbatim>\<open>p.Matches(q)\<close> returns, and what it returns is true exactly when the attribute of \<open>p\<close>
  \<^verbatim>\<open>Equals\<close> the attribute of \<open>q\<close>, the two have the same number of children, and
  \<open>h1 = h2\<close>. The second property is passed as the interface value it is in Go, through
  the method table of \<^verbatim>\<open>*complexProperty\<close>; the two may have children of different kinds.
\<close>

theorem Matches_iff:
  assumes "Hash P p = Return h1 p'" and "Hash Q q = Return h2 q'"
  shows "\<exists>s. Matches Equals P (complexProperty_Property ToLower Q) p q =
           Return (Equals (attr p) (attr q) \<and> CountChildren p = CountChildren q \<and> h1 = h2) s"
  using assms by (simp add: Matches_def complexProperty_Property_def)

lemma Hash_member_u1:
  "Hash stringLeaf_Property member_u1 =
     Return (spec_fnv1a64 (bytes ''value'' @ spec_le64 (leaf_digest (Some ''u1''))))
       (set_hash member_u1 (spec_fnv1a64 (bytes ''value'' @ spec_le64 (leaf_digest (Some ''u1'')))))"
  using computeHash_result [of member_u1 stringLeaf_Property]
  by (simp add: Hash_def member_u1_def member_attr_def value_attr_def display_attr_def hashed_def
      spec_skipped_def stringLeaf_Property_def set_hash_def afterHash_def hashValue_def
      spec_complexHash_def spec_hashInput_def)

lemma Hash_member_u1_renamed:
  "Hash stringLeaf_Property member_u1_renamed =
     Return (spec_fnv1a64 (bytes ''value'' @ spec_le64 (leaf_digest (Some ''u1''))))
       (set_hash member_u1_renamed (spec_fnv1a64 (bytes ''value'' @ spec_le64 (leaf_digest (Some ''u1'')))))"
  using computeHash_result [of member_u1_renamed stringLeaf_Property]
  by (simp add: Hash_def member_u1_renamed_def member_attr_def value_attr_def display_attr_def hashed_def
      spec_skipped_def stringLeaf_Property_def set_hash_def afterHash_def hashValue_def
      spec_complexHash_def spec_hashInput_def)

text \<open>
  Two members with the same identity value \<^verbatim>\<open>u1\<close> and different display names match:
  the display name is not part of the hash.
\<close>

theorem Matches_iff_witness:
  "\<exists>s. Matches (=) stringLeaf_Property (complexProperty_Property asciiToLower stringLeaf_Property)
          member_u1 member_u1_renamed = Return True s"
  using Matches_iff [OF Hash_member_u1 Hash_member_u1_renamed, of "(=)" asciiToLower]
  by (simp add: member_u1_def member_u1_renamed_def CountChildren_def)

section \<open>Relational operators\<close>

text \<open>
  C7. On a complex property each of \<^verbatim>\<open>EqualsTo\<close>, \<^verbatim>\<open>StartsWith\<close>, \<^verbatim>\<open>EndsWith\<close>, \<^verbatim>\<open>Contains\<close>,
  \<^verbatim>\<open>GreaterThan\<close> and \<^verbatim>\<open>LessThan\<close> returns, for every argument, the internal error
  "incompatible operation" (beside the zero value \<^verbatim>\<open>false\<close> of its first result).
\<close>

theorem relational_ops_fail:
  "EqualsTo p v = (False, Some (Internal ''incompatible operation''))
   \<and> StartsWith p s = (False, Some (Internal ''incompatible operation''))
   \<and> EndsWith p s = (False, Some (Internal ''incompatible operation''))
   \<and> Contains p s = (False, Some (Internal ''incompatible operation''))
   \<and> GreaterThan p v = (False, Some (Internal ''incompatible operation''))
   \<and> LessThan p v = (False, Some (Internal ''incompatible operation''))"
  by (simp add: EqualsTo_def StartsWith_def EndsWith_def Contains_def GreaterThan_def LessThan_def
      errIncompatibleOp_def)

theorem relational_ops_fail_witness:
  "EqualsTo name_fresh (VString ''Ada'') = (False, Some (Internal ''incompatible operation''))
   \<and> Contains name_fresh ''Ada'' = (False, Some (Internal ''incompatible operation''))"
  using relational_ops_fail [of name_fresh "VString ''Ada''" "''Ada''"] by simp

section \<open>Nil arguments\<close>

text \<open>
  C8. \<^verbatim>\<open>Replace(nil)\<close> on a complex property in any state returns no error and leaves the
  property, its children and its cached hash as they were.
\<close>

theorem Replace_nil: "Replace ToLower P p VNil = Return None p"
  by (simp add: Replace_def)

theorem Replace_nil_witness:
  "Replace asciiToLower stringLeaf_Property member_u1 VNil = Return None member_u1"
  using Replace_nil [of asciiToLower stringLeaf_Property member_u1] by simp

text \<open>
  C10. \<^verbatim>\<open>Add(nil)\<close> on a complex property returns no error and leaves the property as it
  was: no child is changed and the cached hash is not recomputed.
\<close>

theorem Add_nil: "Add ToLower P p VNil = Return None p"
  by (simp add: Add_def)

theorem Add_nil_witness:
  "Add asciiToLower stringLeaf_Property member_u1 VNil = Return None member_u1"
  using Add_nil [of asciiToLower stringLeaf_Property member_u1] by simp

section \<open>Values that are not mappings\<close>

text \<open>
  C5, as stated, fails at nil: nil is not a mapping, and \<^verbatim>\<open>Add(nil)\<close> returns no error.
\<close>

theorem Add_nil_is_not_rejected:
  "(\<forall>m. VNil \<noteq> VMap m)
   \<and> Add asciiToLower stringLeaf_Property name_fresh VNil = Return None name_fresh"
  by (simp add: Add_def)

text \<open>
  C5, amended. For every value that is neither nil nor a \<^verbatim>\<open>map[string]interface{}\<close>, \<^verbatim>\<open>Add\<close>
  on a complex property returns the \<^verbatim>\<open>InvalidValue\<close> error whose message carries the type
  of the value and the path of the property's attribute, and changes nothing.
\<close>

theorem Add_not_a_mapping:
  assumes "v \<noteq> VNil" and "\<forall>m. v \<noteq> VMap m"
  shows "Add ToLower P p v =
           Return (Some (InvalidValue (''value of type '' @ typeName v
             @ '' is incompatible with attribute '' @ [CHR 0x27] @ Attribute_Path (attr p)
             @ [CHR 0x27]))) p"
  using assms by (cases v) (simp_all add: Add_def errIncompatibleValue_def)

theorem Add_not_a_mapping_witness:
  "Add asciiToLower stringLeaf_Property name_fresh (VSlice [VString ''Ada'']) =
     Return (Some (InvalidValue (''value of type []interface {} is incompatible with attribute ''
       @ [CHR 0x27] @ ''name'' @ [CHR 0x27]))) name_fresh"
  using Add_not_a_mapping [of "VSlice [VString ''Ada'']" asciiToLower stringLeaf_Property name_fresh]
  by (simp add: name_fresh_def name_attr_def)

section \<open>Derived forms of an attribute\<close>

text \<open>
  C9. For an attribute at address \<open>a\<close>: \<^verbatim>\<open>ToSingleValued\<close> returns the pointer \<open>a\<close> itself and
  an unchanged heap when \<^verbatim>\<open>MultiValued\<close> is already false; otherwise it returns the address
  of a newly allocated struct that is the original with \<^verbatim>\<open>MultiValued\<close> set to false and
  every other field as it was. \<^verbatim>\<open>ToOptional\<close> does the same for \<^verbatim>\<open>Required\<close>. Either way
  every object that existed before, the receiver among them, is unchanged; no backing
  array and no metadata object is written or allocated; and the result has the slice
  header of the receiver's sub-attributes and the receiver's metadata pointer, so that
  both are shared. A new struct is at an address that was not in use.
\<close>

theorem derived_forms:
  assumes "valid_ref h a"
  shows "ToSingleValued h (Some a) =
     (if MultiValued (attributes h ! a)
      then (h\<lparr>attributes := attributes h @ [(attributes h ! a)\<lparr>MultiValued := False\<rparr>]\<rparr>,
            Some (length (attributes h)))
      else (h, Some a))
   \<and> ToOptional h (Some a) =
     (if Required (attributes h ! a)
      then (h\<lparr>attributes := attributes h @ [(attributes h ! a)\<lparr>Required := False\<rparr>]\<rparr>,
            Some (length (attributes h)))
      else (h, Some a))
   \<and> (\<forall>f\<in>{ToSingleValued, ToOptional}. \<forall>h' r. f h (Some a) = (h', r) \<longrightarrow>
        (\<forall>b. valid_ref h b \<longrightarrow> valid_ref h' b \<and> attributes h' ! b = attributes h ! b)
        \<and> attribute_arrays h' = attribute_arrays h
        \<and> string_arrays h' = string_arrays h
        \<and> metadata h' = metadata h
        \<and> (\<exists>b. r = Some b \<and> valid_ref h' b
              \<and> SubAttributes (attributes h' ! b) = SubAttributes (attributes h ! a)
              \<and> Metadata (attributes h' ! b) = Metadata (attributes h ! a)
              \<and> (r \<noteq> Some a \<longrightarrow> \<not> valid_ref h b)))"
  using assms by (auto simp add: ToSingleValued_def ToOptional_def valid_ref_def nth_append)

theorem derived_forms_witness:
  "ToSingleValued heap0 (Some 0) =
     (heap0\<lparr>attributes := [emails_struct, value_struct, emails_struct\<lparr>MultiValued := False\<rparr>]\<rparr>, Some 2)
   \<and> ToOptional heap0 (Some 0) =
     (heap0\<lparr>attributes := [emails_struct, value_struct, emails_struct\<lparr>Required := False\<rparr>]\<rparr>, Some 2)
   \<and> ToSingleValued heap0 (Some 1) = (heap0, Some 1)
   \<and> ToOptional heap0 (Some 1) = (heap0, Some 1)"
  using derived_forms [of heap0 0] derived_forms [of heap0 1]
  by (simp add: valid_ref_def heap0_def emails_struct_def value_struct_def)

section \<open>Adding a mapping\<close>

lemma lastIndex_None: "lastIndex Q xs = None \<longleftrightarrow> \<not> list_ex Q xs"
  by (induction xs) (auto split: option.splits)

lemma lastIndex_Some:
  "lastIndex Q xs = Some i \<Longrightarrow> i < length xs \<and> Q (xs ! i) \<and> (\<forall>j. i < j \<and> j < length xs \<longrightarrow> \<not> Q (xs ! j))"
proof (induction xs arbitrary: i)
  case Nil
  then show ?case by simp
next
  case (Cons x xs)
  show ?case
  proof (cases "lastIndex Q xs")
    case None
    then have no: "\<not> list_ex Q xs" by (simp add: lastIndex_None)
    from Cons.prems None have i0: "i = 0" and "Q x" by (auto split: if_splits)
    have "\<forall>j. 0 < j \<and> j < length (x # xs) \<longrightarrow> \<not> Q ((x # xs) ! j)"
      using no by (auto simp: list_ex_iff nth_Cons split: nat.splits)
    then show ?thesis using i0 \<open>Q x\<close> by simp
  next
    case (Some k)
    with Cons.prems have i: "i = Suc k" by simp
    from Cons.IH [OF Some] show ?thesis
      unfolding i by (auto simp: nth_Cons split: nat.splits)
  qed
qed

lemma newSubProps_index:
  "newSubProps ToLower K subs props idx = Inr (props', idx') \<Longrightarrow>
   length props' = length props + length subs
   \<and> (\<forall>key. idx' key =
        (case lastIndex (\<lambda>s. ToLower (Attribute_Name s) = key) subs of
           Some i \<Rightarrow> Some (length props + i)
         | None \<Rightarrow> idx key))"
proof (induction subs arbitrary: props idx)
  case Nil
  then show ?case by simp
next
  case (Cons s subs)
  let ?step = "(if Attribute_MultiValued s then Inr (props @ [NewMulti K s])
         else
           (case Attribute_Type s of
              TypeString \<Rightarrow> Inr (props @ [NewString K s])
            | TypeInteger \<Rightarrow> Inr (props @ [NewInteger K s])
            | TypeDecimal \<Rightarrow> Inr (props @ [NewDecimal K s])
            | TypeBoolean \<Rightarrow> Inr (props @ [NewBoolean K s])
            | TypeDateTime \<Rightarrow> Inr (props @ [NewDateTime K s])
            | TypeReference \<Rightarrow> Inr (props @ [NewReference K s])
            | TypeBinary \<Rightarrow> Inr (props @ [NewBinary K s])
            | TypeComplex \<Rightarrow>
                (case NewComplex ToLower K s of
                   Inl r \<Rightarrow> Inl r
                 | Inr c \<Rightarrow> Inr (props @ [asProperty K c]))
            | TypeOther \<Rightarrow> Inl ''invalid type''))"
  from Cons.prems obtain props1 where
    step: "?step = Inr props1" and
    rest: "newSubProps ToLower K subs props1 (idx(ToLower (Attribute_Name s) \<mapsto> length props1 - 1)) = Inr (props', idx')"
    by (auto split: sum.splits)
  have len1: "length props1 = Suc (length props)"
    using step by (auto split: if_splits attr_type.splits sum.splits)
  from Cons.IH [OF rest] len1 show ?case
    by (auto split: option.splits)
qed

lemma NewComplex_indexed:
  assumes "NewComplex ToLower K a = Inr p"
  shows "attr p = a \<and> hash p = 0 \<and> indexed ToLower p"
proof -
  from assms obtain props idx where
    sub: "newSubProps ToLower K (Attribute_SubAttributes a) [] Map.empty = Inr (props, idx)"
    and p: "p = complexProperty a props idx 0"
    by (auto split: if_splits sum.splits)
  from newSubProps_index [OF sub] show ?thesis
    unfolding p indexed_def by (auto split: option.splits)
qed

lemma addEach_spec_delegate:
  assumes "\<forall>key. idx key = lastIndex (\<lambda>s. ToLower (Attribute_Name s) = key) subs"
    and "length props = length subs"
  shows "addEach ToLower P idx m props = spec_delegate ToLower P subs m props"
  using assms(2)
proof (induction m arbitrary: props)
  case Nil
  then show ?case by simp
next
  case (Cons kv m)
  obtain k v where kv: "kv = (k, v)" by (cases kv)
  show ?case
  proof (cases "idx (ToLower k)")
    case None
    then show ?thesis using Cons assms(1) by (simp add: kv spec_resolve_def)
  next
    case (Some i)
    then have "lastIndex (\<lambda>s. ToLower (Attribute_Name s) = ToLower k) subs = Some i"
      using assms(1) by simp
    from lastIndex_Some [OF this] Cons.prems have i: "i < length props" by simp
    have res: "spec_resolve ToLower subs k = Some i"
      using Some assms(1) by (simp add: spec_resolve_def)
    show ?thesis
      using Some i res Cons.IH [of "props[i := c]" for c] Cons.prems
      by (auto simp add: kv split: outcome.splits option.splits)
  qed
qed

lemma addEach_unknown:
  "idx (ToLower k) = None \<Longrightarrow>
   addEach ToLower P idx (m1 @ (k, v) # m2) props = addEach ToLower P idx (m1 @ m2) props"
  by (induction m1 arbitrary: props) (auto split: option.splits outcome.splits)


lemma asciiToLower_names:
  "asciiToLower ''givenName'' = ''givenname''"
  "asciiToLower ''familyName'' = ''familyname''"
  "asciiToLower ''GIVENNAME'' = ''givenname''"
  "asciiToLower ''nickName'' = ''nickname''"
  by code_simp+

lemma NewComplex_name_attr:
  "NewComplex asciiToLower stringLeaf_constructors name_attr = Inr name_fresh"
  by (simp add: name_attr_def givenName_attr_def familyName_attr_def name_fresh_def
      Attribute_SingleValued_def stringLeaf_constructors_def asciiToLower_names)

lemma indexed_name_fresh: "indexed asciiToLower name_fresh"
  using NewComplex_indexed [OF NewComplex_name_attr] by simp

text \<open>
  C6. On a property shaped as \<^verbatim>\<open>NewComplex\<close> builds it, and for every mapping and every
  order in which its entries are visited: looking a key up in the name index is resolving
  it against the sub-attributes case-insensitively; the lookup fails exactly for a key
  that matches no sub-attribute, and otherwise gives the position of a child whose
  sub-attribute has the key's name up to case; an entry whose key matches no
  sub-attribute can be removed from the mapping without changing what \<^verbatim>\<open>Add\<close> returns or
  does, so it neither fails \<^verbatim>\<open>Add\<close> nor touches a child; and \<^verbatim>\<open>Add\<close> is the delegation of each
  recognised key's value to the \<^verbatim>\<open>Add\<close> of the child at the resolved position, an error
  or panic of a child ending the loop, followed by the recomputation of the hash.
\<close>

theorem Add_mapping:
  assumes "indexed ToLower p"
  shows "(\<forall>k. nameIndex p (ToLower k) = spec_resolve ToLower (Attribute_SubAttributes (attr p)) k)
    \<and> (\<forall>k. spec_resolve ToLower (Attribute_SubAttributes (attr p)) k = None
           \<longleftrightarrow> \<not> spec_known ToLower (Attribute_SubAttributes (attr p)) k)
    \<and> (\<forall>k i. spec_resolve ToLower (Attribute_SubAttributes (attr p)) k = Some i \<longrightarrow>
           i < length (subProps p)
           \<and> ToLower (Attribute_Name (Attribute_SubAttributes (attr p) ! i)) = ToLower k)
    \<and> (\<forall>k v m1 m2. \<not> spec_known ToLower (Attribute_SubAttributes (attr p)) k \<longrightarrow>
           Add ToLower P p (VMap (m1 @ (k, v) # m2)) = Add ToLower P p (VMap (m1 @ m2)))
    \<and> Add ToLower P p (VMap m) =
        (case spec_delegate ToLower P (Attribute_SubAttributes (attr p)) m (subProps p) of
           Return None props \<Rightarrow>
             (case computeHash P (set_subProps p props) of
                Return u p' \<Rightarrow> Return None p'
              | Panic r p' \<Rightarrow> Panic r p')
         | Return (Some err) props \<Rightarrow> Return (Some err) (set_subProps p props)
         | Panic r props \<Rightarrow> Panic r (set_subProps p props))"
proof -
  let ?subs = "Attribute_SubAttributes (attr p)"
  have idx: "\<forall>key. nameIndex p key = lastIndex (\<lambda>s. ToLower (Attribute_Name s) = key) ?subs"
    and len: "length (subProps p) = length ?subs"
    using assms by (simp_all add: indexed_def)
  have resolve: "\<forall>k. nameIndex p (ToLower k) = spec_resolve ToLower ?subs k"
    using idx by (simp add: spec_resolve_def)
  have none: "\<forall>k. spec_resolve ToLower ?subs k = None \<longleftrightarrow> \<not> spec_known ToLower ?subs k"
    by (simp add: spec_resolve_def spec_known_def lastIndex_None)
  have some: "\<forall>k i. spec_resolve ToLower ?subs k = Some i \<longrightarrow>
      i < length (subProps p) \<and> ToLower (Attribute_Name (?subs ! i)) = ToLower k"
    using lastIndex_Some [of "\<lambda>s. ToLower (Attribute_Name s) = ToLower k" ?subs for k] len
    by (simp add: spec_resolve_def)
  have drop: "\<forall>k v m1 m2. \<not> spec_known ToLower ?subs k \<longrightarrow>
      Add ToLower P p (VMap (m1 @ (k, v) # m2)) = Add ToLower P p (VMap (m1 @ m2))"
    using resolve none by (simp add: Add_def addEach_unknown)
  have whole: "Add ToLower P p (VMap m) =
        (case spec_delegate ToLower P ?subs m (subProps p) of
           Return None props \<Rightarrow>
             (case computeHash P (set_subProps p props) of
                Return u p' \<Rightarrow> Return None p'
              | Panic r p' \<Rightarrow> Panic r p')
         | Return (Some err) props \<Rightarrow> Return (Some err) (set_subProps p props)
         | Panic r props \<Rightarrow> Panic r (set_subProps p props))"
    using addEach_spec_delegate [OF idx len, of P m]
    by (simp add: Add_def split: outcome.splits option.splits)
  from resolve none some drop whole show ?thesis by blast
qed

lemma computeHash_name_ada:
  "computeHash stringLeaf_Property
     (complexProperty name_attr
        [stringLeaf givenName_attr (Some ''Ada'') True (leaf_digest (Some ''Ada'')),
         newStringLeaf familyName_attr] idx h) =
   Return ()
     (complexProperty name_attr
        [stringLeaf givenName_attr (Some ''Ada'') True (leaf_digest (Some ''Ada'')),
         newStringLeaf familyName_attr] idx
        (spec_fnv1a64 (bytes ''givenName'' @ spec_le64 (leaf_digest (Some ''Ada''))
           @ bytes ''familyName'')))"
  using computeHash_result [of "complexProperty name_attr
        [stringLeaf givenName_attr (Some ''Ada'') True (leaf_digest (Some ''Ada'')),
         newStringLeaf familyName_attr] idx h" stringLeaf_Property]
  by (simp add: name_attr_def givenName_attr_def familyName_attr_def hashed_def newStringLeaf_def
      spec_skipped_def stringLeaf_Property_def afterHash_def hashValue_def
      spec_complexHash_def spec_hashInput_def)

theorem Add_mapping_witness:
  "Add asciiToLower stringLeaf_Property name_fresh
     (VMap [(''GIVENNAME'', VString ''Ada''), (''nickName'', VString ''Countess'')]) =
   Return None
     (complexProperty name_attr
        [stringLeaf givenName_attr (Some ''Ada'') True (leaf_digest (Some ''Ada'')),
         newStringLeaf familyName_attr]
        [''givenname'' \<mapsto> 0, ''familyname'' \<mapsto> 1]
        (spec_fnv1a64 (bytes ''givenName'' @ spec_le64 (leaf_digest (Some ''Ada''))
           @ bytes ''familyName'')))"
proof -
  have sub: "Attribute_SubAttributes (attr name_fresh) = [givenName_attr, familyName_attr]"
    by (simp add: name_fresh_def name_attr_def)
  have r1: "spec_resolve asciiToLower [givenName_attr, familyName_attr] ''GIVENNAME'' = Some 0"
    by (simp add: spec_resolve_def givenName_attr_def familyName_attr_def asciiToLower_names)
  have r2: "spec_resolve asciiToLower [givenName_attr, familyName_attr] ''nickName'' = None"
    by (simp add: spec_resolve_def givenName_attr_def familyName_attr_def asciiToLower_names)
  have add: "Property_Add stringLeaf_Property (newStringLeaf givenName_attr) (VString ''Ada'') =
      Return None (stringLeaf givenName_attr (Some ''Ada'') True (leaf_digest (Some ''Ada'')))"
    by (simp add: stringLeaf_Property_def stringLeaf_Add_def newStringLeaf_def)
  have props: "subProps name_fresh = [newStringLeaf givenName_attr, newStringLeaf familyName_attr]"
    by (simp add: name_fresh_def)
  from Add_mapping [OF indexed_name_fresh, of stringLeaf_Property
      "[(''GIVENNAME'', VString ''Ada''), (''nickName'', VString ''Countess'')]"]
  show ?thesis
    by (simp add: sub r1 r2 props add set_subProps_def)
      (simp add: name_fresh_def computeHash_name_ada)
qed

section \<open>Replace\<close>

lemma forEachFrom_length:
  "forEachFrom cb i cs s = Return r (cs', s') \<Longrightarrow> length cs' = length cs"
  "forEachFrom cb i cs s = Panic m (cs', s') \<Longrightarrow> length cs' = length cs"
  by (induction cs arbitrary: i s r cs' s' m) (auto split: outcome.splits option.splits prod.splits)

lemma computeHash_frame:
  "computeHash P p = Return u p' \<Longrightarrow> attr p' = attr p \<and> nameIndex p' = nameIndex p
     \<and> length (subProps p') = length (subProps p)"
  "computeHash P p = Panic m p' \<Longrightarrow> attr p' = attr p \<and> nameIndex p' = nameIndex p
     \<and> length (subProps p') = length (subProps p)"
  by (auto simp add: computeHash_def ForEachChild_def set_subProps_def set_hash_def forEachFrom_length
      split: outcome.splits option.splits prod.splits)


lemma Delete_frame:
  "Delete P p = Return e p' \<Longrightarrow> attr p' = attr p \<and> nameIndex p' = nameIndex p"
  "Delete P p = Panic m p' \<Longrightarrow> attr p' = attr p \<and> nameIndex p' = nameIndex p"
  unfolding Delete_def
  by (auto simp add: set_subProps_def split: outcome.splits option.splits
      dest: computeHash_frame)

lemma Add_frame:
  "Add ToLower P p v = Return e p' \<Longrightarrow> attr p' = attr p \<and> nameIndex p' = nameIndex p"
  "Add ToLower P p v = Panic m p' \<Longrightarrow> attr p' = attr p \<and> nameIndex p' = nameIndex p"
  by (cases v; auto simp add: Add_def set_subProps_def split: outcome.splits option.splits
      dest: computeHash_frame)+

lemma errIncompatibleValue_attr:
  "attr p' = attr p \<Longrightarrow> errIncompatibleValue p' v = errIncompatibleValue p v"
  by (simp add: errIncompatibleValue_def)

lemma deleteEach_unassigned:
  assumes "\<forall>c c'. Property_Delete P c = Return None c' \<longrightarrow> Property_IsUnassigned P c'"
  shows "deleteEach P cs = Return None cs' \<Longrightarrow> list_all (Property_IsUnassigned P) cs'"
  using assms
  by (induction cs arbitrary: cs') (auto split: outcome.splits option.splits)

lemma computeHash_unassigned:
  assumes "list_all (Property_IsUnassigned P) (subProps p)"
  shows "computeHash P p = Return () (set_hash p (spec_complexHash P p))"
proof -
  have none: "\<forall>c\<in>set (subProps p). \<not> hashed P p c"
    using assms by (simp add: hashed_def list_all_iff)
  then have "\<forall>c\<in>set (subProps p). hashed P p c \<longrightarrow> (\<exists>v c'. Property_Hash P c = Return v c')"
    by simp
  from computeHash_result [OF this] none show ?thesis
    by (simp add: set_hash_def cong: map_cong)
qed

lemma Delete_unassigned:
  assumes "\<forall>c c'. Property_Delete P c = Return None c' \<longrightarrow> Property_IsUnassigned P c'"
    and "Delete P p = Return None p1"
  shows "IsUnassigned P p1"
proof -
  from assms(2) obtain cs' where
    d: "deleteEach P (subProps p) = Return None cs'"
    and h: "computeHash P (set_subProps p cs') = Return () p1"
    by (auto simp add: Delete_def split: outcome.splits option.splits)
  have "list_all (Property_IsUnassigned P) (subProps (set_subProps p cs'))"
    using deleteEach_unassigned [OF assms(1) d] by (simp add: set_subProps_def)
  from computeHash_unassigned [OF this] h
  have "p1 = set_hash (set_subProps p cs') (spec_complexHash P (set_subProps p cs'))" by simp
  then show ?thesis
    using deleteEach_unassigned [OF assms(1) d]
    by (simp add: IsUnassigned_def set_hash_def set_subProps_def)
qed


text \<open>
  C4, amended. For a value that is not nil, \<^verbatim>\<open>Replace\<close> never panics. A panic of the
  \<^verbatim>\<open>Delete\<close> or of the \<^verbatim>\<open>Add\<close> step is turned into the \<^verbatim>\<open>InvalidValue\<close> error that carries the
  type of the value and the path of this property's attribute. An error that a step
  returns is returned as it is: the error of a child as the child made it. For a value
  that is not a mapping, once \<^verbatim>\<open>Delete\<close> has returned, the error is the \<^verbatim>\<open>InvalidValue\<close> of
  this property's path and the property is in the state \<^verbatim>\<open>Delete\<close> left, which is
  unassigned when the \<^verbatim>\<open>Delete\<close> of every child leaves the child unassigned. In every
  failure the property is left as the failing step left it; nothing is rolled back.
\<close>

theorem Replace_failure:
  assumes "v \<noteq> VNil"
  shows "(\<exists>e p'. Replace ToLower P p v = Return e p')
    \<and> errIncompatibleValue p v =
        InvalidValue (''value of type '' @ typeName v @ '' is incompatible with attribute ''
          @ [CHR 0x27] @ Attribute_Path (attr p) @ [CHR 0x27])
    \<and> (\<forall>r p1. Delete P p = Panic r p1 \<longrightarrow>
          Replace ToLower P p v = Return (Some (errIncompatibleValue p v)) p1)
    \<and> (\<forall>err p1. Delete P p = Return (Some err) p1 \<longrightarrow>
          Replace ToLower P p v = Return (Some err) p1)
    \<and> (\<forall>p1. Delete P p = Return None p1 \<longrightarrow>
          (\<forall>r p2. Add ToLower P p1 v = Panic r p2 \<longrightarrow>
             Replace ToLower P p v = Return (Some (errIncompatibleValue p v)) p2)
          \<and> (\<forall>e p2. Add ToLower P p1 v = Return e p2 \<longrightarrow>
             Replace ToLower P p v = Return e p2)
          \<and> ((\<forall>m. v \<noteq> VMap m) \<longrightarrow>
             Replace ToLower P p v = Return (Some (errIncompatibleValue p v)) p1
             \<and> ((\<forall>c c'. Property_Delete P c = Return None c' \<longrightarrow> Property_IsUnassigned P c')
                  \<longrightarrow> IsUnassigned P p1)))"
proof (intro conjI allI impI)
  show "\<exists>e p'. Replace ToLower P p v = Return e p'"
    using assms by (simp add: Replace_def split: outcome.splits option.splits)
next
  show "errIncompatibleValue p v =
        InvalidValue (''value of type '' @ typeName v @ '' is incompatible with attribute ''
          @ [CHR 0x27] @ Attribute_Path (attr p) @ [CHR 0x27])"
    by (simp add: errIncompatibleValue_def)
next
  fix r p1
  assume d: "Delete P p = Panic r p1"
  have "attr p1 = attr p" using Delete_frame(2) [OF d] by simp
  from errIncompatibleValue_attr [OF this, of v]
  show "Replace ToLower P p v = Return (Some (errIncompatibleValue p v)) p1"
    using assms d by (simp add: Replace_def)
next
  fix err p1
  assume "Delete P p = Return (Some err) p1"
  then show "Replace ToLower P p v = Return (Some err) p1"
    using assms by (simp add: Replace_def)
next
  fix p1 r p2
  assume d: "Delete P p = Return None p1" and a: "Add ToLower P p1 v = Panic r p2"
  have "attr p2 = attr p" using Delete_frame(1) [OF d] Add_frame(2) [OF a] by simp
  from errIncompatibleValue_attr [OF this, of v]
  show "Replace ToLower P p v = Return (Some (errIncompatibleValue p v)) p2"
    using assms d a by (simp add: Replace_def)
next
  fix p1 e p2
  assume "Delete P p = Return None p1" and "Add ToLower P p1 v = Return e p2"
  then show "Replace ToLower P p v = Return e p2"
    using assms by (simp add: Replace_def)
next
  fix p1
  assume d: "Delete P p = Return None p1" and n: "\<forall>m. v \<noteq> VMap m"
  have a: "Add ToLower P p1 v = Return (Some (errIncompatibleValue p1 v)) p1"
    using assms n by (cases v) (simp_all add: Add_def)
  have "attr p1 = attr p" using Delete_frame(1) [OF d] by simp
  from errIncompatibleValue_attr [OF this, of v]
  show "Replace ToLower P p v = Return (Some (errIncompatibleValue p v)) p1"
    using assms d a by (simp add: Replace_def)
next
  fix p1
  assume d: "Delete P p = Return None p1"
    and "\<forall>c c'. Property_Delete P c = Return None c' \<longrightarrow> Property_IsUnassigned P c'"
  from Delete_unassigned [OF this(2) d] show "IsUnassigned P p1" .
qed


lemma stringLeaf_Property_simps:
  "Property_Attribute stringLeaf_Property = leaf_attr"
  "Property_Raw stringLeaf_Property c = (case leaf_value c of None \<Rightarrow> VNil | Some s \<Rightarrow> VString s)"
  "Property_IsUnassigned stringLeaf_Property c = (leaf_value c = None)"
  "Property_Hash stringLeaf_Property c = Return (leaf_hash c) c"
  "Property_Add stringLeaf_Property = stringLeaf_Add"
  "Property_Delete stringLeaf_Property = stringLeaf_Delete"
  by (simp_all add: stringLeaf_Property_def)

lemma panicking_Add_simps:
  "Property_Attribute panicking_Add = Property_Attribute stringLeaf_Property"
  "Property_IsUnassigned panicking_Add = Property_IsUnassigned stringLeaf_Property"
  "Property_Hash panicking_Add = Property_Hash stringLeaf_Property"
  "Property_Add panicking_Add c v = Panic ''add panicked'' c"
  "Property_Delete panicking_Add = Property_Delete stringLeaf_Property"
  by (simp_all add: panicking_Add_def)

lemma computeHash_name_unassigned:
  assumes "Property_Attribute P = leaf_attr"
    and "\<And>c. Property_IsUnassigned P c = (leaf_value c = None)"
  shows "computeHash P
     (complexProperty name_attr
        [stringLeaf givenName_attr None t1 h1, stringLeaf familyName_attr None t2 h2] idx h) =
   Return ()
     (complexProperty name_attr
        [stringLeaf givenName_attr None t1 h1, stringLeaf familyName_attr None t2 h2] idx
        (spec_fnv1a64 (bytes ''givenName'' @ bytes ''familyName'')))"
  using computeHash_result [of "complexProperty name_attr
        [stringLeaf givenName_attr None t1 h1, stringLeaf familyName_attr None t2 h2] idx h" P]
  by (simp add: name_attr_def givenName_attr_def familyName_attr_def hashed_def
      spec_skipped_def assms spec_complexHash_def spec_hashInput_def)

lemma Delete_name_fresh:
  "Delete stringLeaf_Property name_fresh =
     Return None
       (complexProperty name_attr [newStringLeaf givenName_attr, newStringLeaf familyName_attr]
          [''givenname'' \<mapsto> 0, ''familyname'' \<mapsto> 1]
          (spec_fnv1a64 (bytes ''givenName'' @ bytes ''familyName'')))"
  by (simp add: Delete_def name_fresh_def set_subProps_def newStringLeaf_def leaf_digest_def
      stringLeaf_Property_simps stringLeaf_Delete_def computeHash_name_unassigned)

text \<open>
  C4, as stated, fails when a child's \<^verbatim>\<open>Add\<close> returns an error. With the entries visited in
  the order written, \<^verbatim>\<open>givenName\<close> is stored, then the string leaf \<^verbatim>\<open>familyName\<close> rejects
  the integer: \<^verbatim>\<open>Replace\<close> returns the leaf's error, which names \<^verbatim>\<open>name.familyName\<close> and
  not \<^verbatim>\<open>name\<close>, and the property is not emptied.
\<close>

theorem Replace_child_error_passes:
  "Replace asciiToLower stringLeaf_Property name_fresh
     (VMap [(''givenName'', VString ''Ada''), (''familyName'', VInt 42)]) =
   Return
     (Some (InvalidValue (''value of type int is incompatible with attribute ''
        @ [CHR 0x27] @ ''name.familyName'' @ [CHR 0x27])))
     (complexProperty name_attr
        [stringLeaf givenName_attr (Some ''Ada'') True (leaf_digest (Some ''Ada'')),
         newStringLeaf familyName_attr]
        [''givenname'' \<mapsto> 0, ''familyname'' \<mapsto> 1]
        (spec_fnv1a64 (bytes ''givenName'' @ bytes ''familyName'')))
   \<and> \<not> IsUnassigned stringLeaf_Property
        (complexProperty name_attr
          [stringLeaf givenName_attr (Some ''Ada'') True (leaf_digest (Some ''Ada'')),
           newStringLeaf familyName_attr]
          [''givenname'' \<mapsto> 0, ''familyname'' \<mapsto> 1]
          (spec_fnv1a64 (bytes ''givenName'' @ bytes ''familyName'')))
   \<and> errIncompatibleValue name_fresh (VMap [(''givenName'', VString ''Ada''), (''familyName'', VInt 42)])
       = InvalidValue (''value of type map[string]interface {} is incompatible with attribute ''
        @ [CHR 0x27] @ ''name'' @ [CHR 0x27])"
proof (intro conjI)
  show "Replace asciiToLower stringLeaf_Property name_fresh
     (VMap [(''givenName'', VString ''Ada''), (''familyName'', VInt 42)]) =
   Return
     (Some (InvalidValue (''value of type int is incompatible with attribute ''
        @ [CHR 0x27] @ ''name.familyName'' @ [CHR 0x27])))
     (complexProperty name_attr
        [stringLeaf givenName_attr (Some ''Ada'') True (leaf_digest (Some ''Ada'')),
         newStringLeaf familyName_attr]
        [''givenname'' \<mapsto> 0, ''familyname'' \<mapsto> 1]
        (spec_fnv1a64 (bytes ''givenName'' @ bytes ''familyName'')))"
    by (simp add: Replace_def Delete_name_fresh Add_def asciiToLower_names set_subProps_def
        stringLeaf_Property_simps stringLeaf_Add_def newStringLeaf_def familyName_attr_def)
  show "\<not> IsUnassigned stringLeaf_Property
        (complexProperty name_attr
          [stringLeaf givenName_attr (Some ''Ada'') True (leaf_digest (Some ''Ada'')),
           newStringLeaf familyName_attr]
          [''givenname'' \<mapsto> 0, ''familyname'' \<mapsto> 1]
          (spec_fnv1a64 (bytes ''givenName'' @ bytes ''familyName'')))"
    by (simp add: IsUnassigned_def stringLeaf_Property_simps)
  show "errIncompatibleValue name_fresh (VMap [(''givenName'', VString ''Ada''), (''familyName'', VInt 42)])
       = InvalidValue (''value of type map[string]interface {} is incompatible with attribute ''
        @ [CHR 0x27] @ ''name'' @ [CHR 0x27])"
    by (simp add: errIncompatibleValue_def name_fresh_def name_attr_def)
qed

lemma Delete_name_ada:
  assumes "Property_Attribute P = leaf_attr"
    and "\<And>c. Property_IsUnassigned P c = (leaf_value c = None)"
    and "Property_Delete P = stringLeaf_Delete"
  shows "Delete P name_ada =
     Return None
       (complexProperty name_attr
          [stringLeaf givenName_attr None True 0, newStringLeaf familyName_attr]
          [''givenname'' \<mapsto> 0, ''familyname'' \<mapsto> 1]
          (spec_fnv1a64 (bytes ''givenName'' @ bytes ''familyName'')))"
  by (simp add: Delete_def name_ada_def set_subProps_def newStringLeaf_def leaf_digest_def
      assms stringLeaf_Delete_def computeHash_name_unassigned)

theorem Replace_failure_witness:
  "Replace asciiToLower stringLeaf_Property name_ada (VString ''Ada Lovelace'') =
     Return
       (Some (InvalidValue (''value of type string is incompatible with attribute ''
          @ [CHR 0x27] @ ''name'' @ [CHR 0x27])))
       (complexProperty name_attr
          [stringLeaf givenName_attr None True 0, newStringLeaf familyName_attr]
          [''givenname'' \<mapsto> 0, ''familyname'' \<mapsto> 1]
          (spec_fnv1a64 (bytes ''givenName'' @ bytes ''familyName'')))
   \<and> IsUnassigned stringLeaf_Property
       (complexProperty name_attr
          [stringLeaf givenName_attr None True 0, newStringLeaf familyName_attr]
          [''givenname'' \<mapsto> 0, ''familyname'' \<mapsto> 1]
          (spec_fnv1a64 (bytes ''givenName'' @ bytes ''familyName'')))
   \<and> Replace asciiToLower panicking_Add name_ada (VMap [(''givenName'', VString ''Augusta'')]) =
     Return
       (Some (InvalidValue (''value of type map[string]interface {} is incompatible with attribute ''
          @ [CHR 0x27] @ ''name'' @ [CHR 0x27])))
       (complexProperty name_attr
          [stringLeaf givenName_attr None True 0, newStringLeaf familyName_attr]
          [''givenname'' \<mapsto> 0, ''familyname'' \<mapsto> 1]
          (spec_fnv1a64 (bytes ''givenName'' @ bytes ''familyName'')))"
proof -
  have contract: "\<forall>c c'. Property_Delete stringLeaf_Property c = Return None c'
      \<longrightarrow> Property_IsUnassigned stringLeaf_Property c'"
    by (auto simp add: stringLeaf_Property_simps stringLeaf_Delete_def)
  have path: "Attribute_Path (attr name_ada) = ''name''"
    by (simp add: name_ada_def name_attr_def)
  have panics: "Add asciiToLower panicking_Add
       (complexProperty name_attr
          [stringLeaf givenName_attr None True 0, newStringLeaf familyName_attr]
          [''givenname'' \<mapsto> 0, ''familyname'' \<mapsto> 1]
          (spec_fnv1a64 (bytes ''givenName'' @ bytes ''familyName'')))
       (VMap [(''givenName'', VString ''Augusta'')]) =
     Panic ''add panicked''
       (complexProperty name_attr
          [stringLeaf givenName_attr None True 0, newStringLeaf familyName_attr]
          [''givenname'' \<mapsto> 0, ''familyname'' \<mapsto> 1]
          (spec_fnv1a64 (bytes ''givenName'' @ bytes ''familyName'')))"
    by (simp add: Add_def asciiToLower_names panicking_Add_simps set_subProps_def)
  from Replace_failure [of "VString ''Ada Lovelace''" asciiToLower stringLeaf_Property name_ada]
    Replace_failure [of "VMap [(''givenName'', VString ''Augusta'')]" asciiToLower panicking_Add name_ada]
  show ?thesis
    using contract panics
    by (simp add: Delete_name_ada stringLeaf_Property_simps panicking_Add_simps path)
qed

section \<open>The shape NewComplex gives is kept\<close>

text \<open>
  \<^verbatim>\<open>NewComplex\<close> returns an \<open>indexed\<close> property (\<open>NewComplex_indexed\<close>), and no operation
  changes the attribute, the name index or the number of children, so every property
  the code can reach is \<open>indexed\<close>.
\<close>

lemma addEach_length:
  "addEach ToLower P idx m props = Return e props' \<Longrightarrow> length props' = length props"
  "addEach ToLower P idx m props = Panic r props' \<Longrightarrow> length props' = length props"
  by (induction m arbitrary: props; auto split: option.splits if_splits outcome.splits)+

lemma deleteEach_length:
  "deleteEach P cs = Return e cs' \<Longrightarrow> length cs' = length cs"
  "deleteEach P cs = Panic r cs' \<Longrightarrow> length cs' = length cs"
  by (induction cs arbitrary: cs'; auto split: option.splits outcome.splits)+

lemma indexed_cong:
  "attr p' = attr p \<Longrightarrow> nameIndex p' = nameIndex p \<Longrightarrow> length (subProps p') = length (subProps p) \<Longrightarrow>
   indexed ToLower p \<Longrightarrow> indexed ToLower p'"
  by (simp add: indexed_def)

lemma indexed_computeHash:
  "indexed ToLower p \<Longrightarrow> computeHash P p = Return u p' \<or> computeHash P p = Panic r p' \<Longrightarrow> indexed ToLower p'"
  using computeHash_frame [of P p] by (auto intro: indexed_cong)

lemma indexed_Delete:
  assumes "indexed ToLower p" and "Delete P p = Return e p' \<or> Delete P p = Panic r p'"
  shows "indexed ToLower p'"
proof -
  have "attr p' = attr p \<and> nameIndex p' = nameIndex p \<and> length (subProps p') = length (subProps p)"
    using assms(2)
    by (auto simp add: Delete_def set_subProps_def split: outcome.splits option.splits
        dest!: computeHash_frame deleteEach_length)
  with assms(1) show ?thesis by (auto intro: indexed_cong)
qed

lemma indexed_Add:
  assumes "indexed ToLower p" and "Add T P p v = Return e p' \<or> Add T P p v = Panic r p'"
  shows "indexed ToLower p'"
proof -
  have "attr p' = attr p \<and> nameIndex p' = nameIndex p \<and> length (subProps p') = length (subProps p)"
    using assms(2)
    by (cases v; auto simp add: Add_def set_subProps_def split: outcome.splits option.splits
        dest!: computeHash_frame addEach_length)
  with assms(1) show ?thesis by (auto intro: indexed_cong)
qed

lemma indexed_Replace:
  assumes "indexed ToLower p" and "Replace T P p v = Return e p'"
  shows "indexed ToLower p'"
  using assms
  by (auto simp add: Replace_def split: if_splits outcome.splits option.splits
      intro: indexed_Delete indexed_Add)

section \<open>Add, then Raw\<close>

















lemma computeHash_stringLeaf:
  "computeHash stringLeaf_Property p =
     Return () (set_hash p (spec_complexHash stringLeaf_Property p))"
  using computeHash_result [of p stringLeaf_Property]
  by (simp add: stringLeaf_Property_simps afterHash_def set_hash_def cong: if_cong)








text \<open>
  The specification's scenario of a second, partial update (section 8): on a property
  that already holds values \<^verbatim>\<open>Add\<close> overwrites what the mapping names and keeps the rest, so
  the round trip is a statement about the freshly constructed property.
\<close>

lemma Add_twice_scenario:
  "\<exists>p1 p2.
     Add asciiToLower stringLeaf_Property name_fresh
       (VMap [(''givenName'', VString ''Ada''), (''familyName'', VString ''Lovelace'')]) = Return None p1
     \<and> Add asciiToLower stringLeaf_Property p1
       (VMap [(''givenName'', VString ''Ada''), (''familyName'', VString ''King'')]) = Return None p2
     \<and> Raw stringLeaf_Property p2
       = VMap [(''givenName'', VString ''Ada''), (''familyName'', VString ''King'')]"
  by (simp add: Add_def name_fresh_def asciiToLower_names set_subProps_def set_hash_def
      stringLeaf_Property_simps stringLeaf_Add_def newStringLeaf_def computeHash_stringLeaf
      Raw_def ForEachChild_def rawChild_def givenName_attr_def familyName_attr_def)

end
